theory Spec2Isabelle
  imports Main
begin

section \<open>Tensors, the store and failures\<close>

text \<open>
  The operations of \<^verbatim>\<open>SparseBlas.cpp\<close> take their operands by reference and compare
  references (\<^verbatim>\<open>&result != &self\<close>), so a tensor is named by its address in a store
  and every function takes the store and returns the new one. A tensor carries its
  layout tag, its dtype tag, its shape and its data: a dense tensor keeps its elements in
  row-major order in \<open>vals\<close>; a CSR tensor keeps the row pointers, the column indices
  and the stored values. Elements are of an arbitrary type \<open>'a\<close>; the scalars \<open>\<alpha>\<close>
  and \<open>\<beta>\<close> are elements of that type, so the test \<^verbatim>\<open>betaval != 0.0\<close> is \<open>\<beta> \<noteq> 0\<close>.
  Rounding, and the conversion of values from one dtype to another, are outside the model:
  the dtype is a tag.
\<close>

datatype layout = kStrided | kSparse | kSparseCsr | kMkldnn

datatype scalar_type = kByte | kChar | kShort | kInt | kLong | kHalf | kFloat | kDouble
  | kComplexFloat | kComplexDouble | kBool | kBFloat16

record 'a tensor =
  layout :: layout
  scalar_type :: scalar_type
  sizes :: "nat list"
  vals :: "'a list"
  crow_indices :: "nat list"
  col_indices :: "nat list"

text \<open>
  A failure is a value. \<open>InternalAssert\<close> is a failed
  \<^verbatim>\<open>TORCH_INTERNAL_ASSERT_DEBUG_ONLY\<close>, \<open>TorchCheck\<close> a failed \<^verbatim>\<open>TORCH_CHECK\<close> with the fixed
  text of its message (the operands printed after it are left out), \<open>BackendFailure\<close> a
  failure inside a delegated kernel, and \<open>OutOfBoundsRead\<close> an unchecked read past the end
  of a \<^verbatim>\<open>sizes()\<close> array.
\<close>

datatype error = InternalAssert string | TorchCheck string | BackendFailure | OutOfBoundsRead

text \<open>
  The store, with a counter of the calls made to the backend kernels.
\<close>

record 'a state =
  heap :: "nat \<Rightarrow> 'a tensor"
  kernel_calls :: nat

text \<open>
  What the file takes from its build and its collaborators: whether debug-only assertions
  are compiled in, the contents of freshly allocated memory, and the two kernels of
  \<^verbatim>\<open>sparse::impl::cpu\<close>, which get the operands and the output buffer and give the new
  contents of the output buffer, or fail.
\<close>

record 'a backend =
  debug_build :: bool
  uninitialized :: "nat \<Rightarrow> 'a"
  cpu_addmv_out_sparse_csr ::
    "'a tensor \<Rightarrow> 'a tensor \<Rightarrow> 'a \<Rightarrow> 'a \<Rightarrow> 'a tensor \<Rightarrow> 'a tensor option"
  cpu_triangular_solve_out_sparse_csr ::
    "'a tensor \<Rightarrow> 'a tensor \<Rightarrow> 'a tensor \<Rightarrow> bool \<Rightarrow> bool \<Rightarrow> bool \<Rightarrow> 'a tensor option"

definition dim :: "'a tensor \<Rightarrow> nat" where
  "dim t = length (sizes t)"

definition is_sparse_csr :: "'a tensor \<Rightarrow> bool" where
  "is_sparse_csr t = (layout t = kSparseCsr)"

definition nnz :: "'a tensor \<Rightarrow> nat" where
  "nnz t = length (col_indices t)"

definition numel :: "'a tensor \<Rightarrow> nat" where
  "numel t = prod_list (sizes t)"

section \<open>Buffer primitives\<close>

text \<open>
  Modelled from the spec: the broadcast-to-shape primitive \<^verbatim>\<open>expand_size\<close> of
  \<^verbatim>\<open>ATen/ExpandUtils.h\<close>, for the one-dimensional target shape \<open>(m)\<close> it is called with. It
  gives the tensor itself when the shape is already \<open>(m)\<close>, repeats a single element \<open>m\<close>
  times, and fails when the tensor cannot be broadcast.
\<close>

definition expand_size :: "'a tensor \<Rightarrow> nat \<Rightarrow> error + 'a tensor" where
  "expand_size t m =
     (if sizes t = [m] then Inr t
      else if 1 < length (sizes t) then
        Inl (TorchCheck ''expand: the number of sizes provided must be greater or equal to the number of dimensions in the tensor'')
      else if sizes t = [] \<or> sizes t = [1] then
        Inr (t\<lparr>sizes := [m], vals := concat (replicate m (vals t))\<rparr>)
      else
        Inl (TorchCheck ''The expanded size of the tensor must match the existing size at non-singleton dimension 0''))"

text \<open>
  Modelled from the spec: the resize-to-shape primitive \<^verbatim>\<open>resize_output\<close> of
  \<^verbatim>\<open>ATen/native/Resize.h\<close>. A buffer that has the shape already is left alone; otherwise
  it gets the shape, keeps the elements it had and takes the others from fresh memory.
\<close>

definition resize_output :: "(nat \<Rightarrow> 'a) \<Rightarrow> 'a tensor \<Rightarrow> nat list \<Rightarrow> 'a tensor" where
  "resize_output fresh t shape =
     (if sizes t = shape then t
      else t\<lparr>sizes := shape,
             vals := map (\<lambda>i. if i < length (vals t) then vals t ! i else fresh i)
                       [0..<prod_list shape]\<rparr>)"

text \<open>
  Modelled from the spec: the elementwise-copy primitive \<^verbatim>\<open>copy_\<close>. The destination keeps
  its tags and its shape and takes the data of the source; a CSR destination takes the
  row pointers and column indices as well.
\<close>

definition copy_into :: "'a tensor \<Rightarrow> 'a tensor \<Rightarrow> 'a tensor" where
  "copy_into dst src =
     (if layout dst = kSparseCsr then
        dst\<lparr>vals := vals src, crow_indices := crow_indices src, col_indices := col_indices src\<rparr>
      else dst\<lparr>vals := vals src\<rparr>)"

text \<open>
  Modelled from the spec: the zero-fill primitive \<^verbatim>\<open>zero_\<close>.
\<close>

definition zero_fill :: "'a::zero tensor \<Rightarrow> 'a tensor" where
  "zero_fill t = t\<lparr>vals := map (\<lambda>_. 0) (vals t)\<rparr>"

text \<open>
  Modelled from the spec: \<^verbatim>\<open>scalar_tensor\<close>, the zero-dimensional dense tensor that holds
  one scalar in the given dtype.
\<close>

definition scalar_tensor :: "'a \<Rightarrow> scalar_type \<Rightarrow> 'a tensor" where
  "scalar_tensor s dt =
     \<lparr>layout = kStrided, scalar_type = dt, sizes = [], vals = [s],
      crow_indices = [], col_indices = []\<rparr>"

text \<open>
  Modelled from the spec: the elementwise-scale primitive \<^verbatim>\<open>mul_out\<close>, for a second
  operand of dimension zero. The output takes the shape of the first operand, and each
  element of the first operand is multiplied, on the right, by the scalar.
\<close>

definition mul_out :: "'a::times tensor \<Rightarrow> 'a tensor \<Rightarrow> 'a tensor \<Rightarrow> 'a tensor" where
  "mul_out out a other =
     out\<lparr>sizes := sizes a,
         vals := concat (map (\<lambda>x. map (\<lambda>y. x * y) (vals other)) (vals a))\<rparr>"

section \<open>addmv\<close>

text \<open>
  Lines 41 to 46: an output buffer that is not \<open>self\<close> is resized to the broadcast shape
  of \<open>self\<close>, and takes the broadcast contents of \<open>self\<close> when \<open>\<beta>\<close> is not zero.
\<close>

definition addmv_prepare_output ::
  "'a::zero backend \<Rightarrow> nat \<Rightarrow> 'a tensor \<Rightarrow> 'a \<Rightarrow> nat \<Rightarrow> 'a state \<Rightarrow> 'a state" where
  "addmv_prepare_output env self self_expanded betaval result st =
     (if result \<noteq> self then
        let r1 = resize_output (uninitialized env) (heap st result) (sizes self_expanded);
            r2 = (if betaval \<noteq> 0 then copy_into r1 self_expanded else r1)
        in st\<lparr>heap := (heap st)(result := r2)\<rparr>
      else st)"

text \<open>
  Line 67: the call of the backend kernel, which is counted, and whose failure leaves the
  prepared buffer as it is.
\<close>

definition addmv_dispatch ::
  "'a backend \<Rightarrow> nat \<Rightarrow> nat \<Rightarrow> 'a \<Rightarrow> 'a \<Rightarrow> nat \<Rightarrow> 'a state \<Rightarrow> (error + nat) \<times> 'a state" where
  "addmv_dispatch env mat vec beta alpha result st =
     (case cpu_addmv_out_sparse_csr env (heap st mat) (heap st vec) beta alpha (heap st result) of
        None \<Rightarrow> (Inl BackendFailure, st\<lparr>kernel_calls := Suc (kernel_calls st)\<rparr>)
      | Some r \<Rightarrow>
          (Inr result, st\<lparr>heap := (heap st)(result := r), kernel_calls := Suc (kernel_calls st)\<rparr>))"

text \<open>
  \<^verbatim>\<open>addmv_out_sparse_csr\<close>, lines 26 to 69. The arguments \<open>self\<close>, \<open>mat\<close>, \<open>vec\<close> and
  \<open>result\<close> are addresses; the value returned is the address of \<open>result\<close>.
\<close>

definition addmv_out_sparse_csr ::
  "'a::{zero,times} backend \<Rightarrow> nat \<Rightarrow> nat \<Rightarrow> nat \<Rightarrow> 'a \<Rightarrow> 'a \<Rightarrow> nat \<Rightarrow> 'a state
     \<Rightarrow> (error + nat) \<times> 'a state" where
  "addmv_out_sparse_csr env self mat vec beta alpha result st =
     (if debug_build env \<and> \<not> is_sparse_csr (heap st mat) then
        (Inl (InternalAssert ''mat.is_sparse_csr()''), st)
      else if dim (heap st mat) \<noteq> 2 then
        (Inl (TorchCheck ''addmv: Expected mat to be 2-D''), st)
      else if dim (heap st vec) \<noteq> 1 then
        (Inl (TorchCheck ''addmv: Expected vec to be 1-D''), st)
      else
        (case expand_size (heap st self) (sizes (heap st mat) ! 0) of
           Inl e \<Rightarrow> (Inl e, st)
         | Inr self_expanded \<Rightarrow>
             let st1 = addmv_prepare_output env self self_expanded beta result st in
             if nnz (heap st1 mat) = 0 then
               (if beta = 0 then
                  (Inr result, st1\<lparr>heap := (heap st1)(result := zero_fill (heap st1 result))\<rparr>)
                else
                  (Inr result,
                   st1\<lparr>heap := (heap st1)(result :=
                      mul_out (heap st1 result) (heap st1 self)
                        (scalar_tensor beta (scalar_type (heap st1 self))))\<rparr>))
             else addmv_dispatch env mat vec beta alpha result st1))"

section \<open>triangular_solve\<close>

text \<open>
  \<^verbatim>\<open>triangular_solve_out_sparse_csr_cpu\<close>, lines 84 to 94: the kernel is called on
  \<open>A\<close>, \<open>B\<close> and \<open>X\<close>, and the pair of the addresses \<open>X\<close> and \<open>clone_A\<close> is returned.
\<close>

definition triangular_solve_out_sparse_csr_cpu ::
  "'a backend \<Rightarrow> nat \<Rightarrow> nat \<Rightarrow> bool \<Rightarrow> bool \<Rightarrow> bool \<Rightarrow> nat \<Rightarrow> nat \<Rightarrow> 'a state
     \<Rightarrow> (error + nat \<times> nat) \<times> 'a state" where
  "triangular_solve_out_sparse_csr_cpu env B A upper transpose' unitriangular X clone_A st =
     (case cpu_triangular_solve_out_sparse_csr env (heap st A) (heap st B) (heap st X)
             upper transpose' unitriangular of
        None \<Rightarrow> (Inl BackendFailure, st\<lparr>kernel_calls := Suc (kernel_calls st)\<rparr>)
      | Some x \<Rightarrow>
          (Inr (X, clone_A),
           st\<lparr>heap := (heap st)(X := x), kernel_calls := Suc (kernel_calls st)\<rparr>))"

section \<open>sampled_addmm\<close>

text \<open>
  The element \<open>(i, j)\<close> of a dense matrix, stored row by row.
\<close>

definition dense_at :: "'a tensor \<Rightarrow> nat \<Rightarrow> nat \<Rightarrow> 'a" where
  "dense_at t i j = vals t ! (i * (sizes t ! 1) + j)"

text \<open>
  The positions of the stored entries of row \<open>i\<close> of a CSR matrix.
\<close>

definition csr_row :: "'a tensor \<Rightarrow> nat \<Rightarrow> nat list" where
  "csr_row t i = [crow_indices t ! i ..< crow_indices t ! Suc i]"

text \<open>
  Modelled from the spec: \<^verbatim>\<open>to_dense\<close> on a CSR matrix. The dense matrix of the same
  shape, where the element \<open>(i, j)\<close> is the sum of the values stored at \<open>(i, j)\<close>, so zero
  where nothing is stored.
\<close>

definition to_dense :: "'a::monoid_add tensor \<Rightarrow> 'a tensor" where
  "to_dense t =
     \<lparr>layout = kStrided, scalar_type = scalar_type t, sizes = sizes t,
      vals = map (\<lambda>idx.
                sum_list (map (\<lambda>p. vals t ! p)
                  (filter (\<lambda>p. col_indices t ! p = idx mod (sizes t ! 1))
                     (csr_row t (idx div (sizes t ! 1))))))
              [0..<(sizes t ! 0) * (sizes t ! 1)],
      crow_indices = [], col_indices = []\<rparr>"

text \<open>
  The element \<open>(i, j)\<close> of the product of two dense matrices.
\<close>

definition matmul_at :: "'a::{monoid_add,times} tensor \<Rightarrow> 'a tensor \<Rightarrow> nat \<Rightarrow> nat \<Rightarrow> 'a" where
  "matmul_at a b i j =
     sum_list (map (\<lambda>l. dense_at a i l * dense_at b l j) [0..<sizes a ! 1])"

text \<open>
  Modelled from the spec: the dense-matmul-accumulate primitive \<^verbatim>\<open>addmm\<close>, which gives
  \<open>\<beta>\<cdot>input + \<alpha>\<cdot>(mat1 @ mat2)\<close> as a dense matrix of the shape of the product.
\<close>

definition addmm ::
  "'a::{monoid_add,times} tensor \<Rightarrow> 'a tensor \<Rightarrow> 'a tensor \<Rightarrow> 'a \<Rightarrow> 'a \<Rightarrow> 'a tensor" where
  "addmm input mat1 mat2 beta alpha =
     \<lparr>layout = kStrided, scalar_type = scalar_type input,
      sizes = [sizes mat1 ! 0, sizes mat2 ! 1],
      vals = map (\<lambda>idx.
                beta * dense_at input (idx div (sizes mat2 ! 1)) (idx mod (sizes mat2 ! 1))
                + alpha * matmul_at mat1 mat2 (idx div (sizes mat2 ! 1)) (idx mod (sizes mat2 ! 1)))
              [0..<(sizes mat1 ! 0) * (sizes mat2 ! 1)],
      crow_indices = [], col_indices = []\<rparr>"

text \<open>
  Modelled from the spec: the mask-by-sparsity-pattern primitive \<^verbatim>\<open>sparse_mask\<close>. The CSR
  matrix with the row pointers and column indices of the pattern, whose stored values are
  the elements of the dense matrix at the stored coordinates, row by row.
\<close>

definition sparse_mask :: "'a tensor \<Rightarrow> 'a tensor \<Rightarrow> 'a tensor" where
  "sparse_mask t pattern =
     \<lparr>layout = kSparseCsr, scalar_type = scalar_type t, sizes = sizes pattern,
      vals = concat (map (\<lambda>i. map (\<lambda>p. dense_at t i (col_indices pattern ! p)) (csr_row pattern i))
                      [0..<sizes pattern ! 0]),
      crow_indices = crow_indices pattern, col_indices = col_indices pattern\<rparr>"

text \<open>
  Modelled from the spec: the CSR structural copy \<^verbatim>\<open>resize_as_sparse_csr_\<close>. The buffer
  takes the shape, the row pointers and the column indices of the source, and a freshly
  allocated values buffer with one element for each stored entry.
\<close>

definition resize_as_sparse_csr :: "(nat \<Rightarrow> 'a) \<Rightarrow> 'a tensor \<Rightarrow> 'a tensor \<Rightarrow> 'a tensor" where
  "resize_as_sparse_csr fresh t src =
     t\<lparr>sizes := sizes src, crow_indices := crow_indices src, col_indices := col_indices src,
       vals := map fresh [0..<nnz src]\<rparr>"

text \<open>
  The fixed text of the three messages of lines 123 to 128, for the operand named.
\<close>

definition expected_matrix :: "string \<Rightarrow> string" where
  "expected_matrix name = ''sampled_addmm: Expected '' @ name @ '' to be a matrix, got ''"

text \<open>
  Lines 112 to 148, in the order of the source: the debug-only assertion, then the checks.
  No check precedes the reads of \<^verbatim>\<open>self_sizes[0]\<close> and \<^verbatim>\<open>self_sizes[1]\<close>, which are
  past the end of the array when \<open>self\<close> has fewer dimensions.
\<close>

definition sampled_addmm_checks ::
  "bool \<Rightarrow> 'a tensor \<Rightarrow> 'a tensor \<Rightarrow> 'a tensor \<Rightarrow> 'a tensor \<Rightarrow> error option" where
  "sampled_addmm_checks dbg self mat1 mat2 result =
     (if dbg \<and> \<not> is_sparse_csr self then Some (InternalAssert ''self.is_sparse_csr()'')
      else if layout mat1 \<noteq> kStrided then
        Some (TorchCheck ''sampled_addmm: Expected mat1 to have strided layout, but got '')
      else if layout mat2 \<noteq> kStrided then
        Some (TorchCheck ''sampled_addmm: Expected mat2 to have strided layout, but got '')
      else if layout result \<noteq> kSparseCsr then
        Some (TorchCheck ''sampled_addmm: Expected result to have sparse csr layout, but got '')
      else if scalar_type mat1 \<noteq> scalar_type mat2 then
        Some (TorchCheck ''sampled_addmm: Expected mat1 and mat2 to have the same dtype, but got '')
      else if scalar_type mat1 \<noteq> scalar_type self then
        Some (TorchCheck ''sampled_addmm: Expected mat1 and self to have the same dtype, but got '')
      else if scalar_type result \<noteq> scalar_type self then
        Some (TorchCheck ''sampled_addmm: Expected result and self to have the same dtype, but got '')
      else if dim mat1 \<noteq> 2 then Some (TorchCheck (expected_matrix ''mat1''))
      else if dim mat2 \<noteq> 2 then Some (TorchCheck (expected_matrix ''mat2''))
      else if dim result \<noteq> 2 then Some (TorchCheck (expected_matrix ''result''))
      else if sizes mat1 ! 1 \<noteq> sizes mat2 ! 0 then
        Some (TorchCheck ''sampled_addmm: mat1 and mat2 shapes cannot be multiplied ('')
      else if dim self < 1 then Some OutOfBoundsRead
      else if sizes self ! 0 \<noteq> sizes mat1 ! 0 then
        Some (TorchCheck ''sampled_addmm: self dim 0 must match mat1 dim 0'')
      else if dim self < 2 then Some OutOfBoundsRead
      else if sizes self ! 1 \<noteq> sizes mat2 ! 1 then
        Some (TorchCheck ''sampled_addmm: self dim 1 must match mat2 dim 1'')
      else None)"

text \<open>
  The messages of the checks above.
\<close>

definition sampled_addmm_messages :: "string list" where
  "sampled_addmm_messages =
     [''sampled_addmm: Expected mat1 to have strided layout, but got '',
      ''sampled_addmm: Expected mat2 to have strided layout, but got '',
      ''sampled_addmm: Expected result to have sparse csr layout, but got '',
      ''sampled_addmm: Expected mat1 and mat2 to have the same dtype, but got '',
      ''sampled_addmm: Expected mat1 and self to have the same dtype, but got '',
      ''sampled_addmm: Expected result and self to have the same dtype, but got '',
      expected_matrix ''mat1'', expected_matrix ''mat2'', expected_matrix ''result'',
      ''sampled_addmm: mat1 and mat2 shapes cannot be multiplied ('',
      ''sampled_addmm: self dim 0 must match mat1 dim 0'',
      ''sampled_addmm: self dim 1 must match mat2 dim 1'']"

text \<open>
  Lines 150 to 152: an output buffer that is not \<open>self\<close> takes the sparsity pattern of
  \<open>self\<close>.
\<close>

definition sampled_addmm_prepare_output :: "'a backend \<Rightarrow> nat \<Rightarrow> nat \<Rightarrow> 'a state \<Rightarrow> 'a state" where
  "sampled_addmm_prepare_output env self result st =
     (if result \<noteq> self then
        st\<lparr>heap := (heap st)(result :=
             resize_as_sparse_csr (uninitialized env) (heap st result) (heap st self))\<rparr>
      else st)"

text \<open>
  \<^verbatim>\<open>sparse_sampled_addmm_out_sparse_csr_cpu\<close>, lines 105 to 156.
\<close>

definition sparse_sampled_addmm_out_sparse_csr_cpu ::
  "'a::{monoid_add,times} backend \<Rightarrow> nat \<Rightarrow> nat \<Rightarrow> nat \<Rightarrow> 'a \<Rightarrow> 'a \<Rightarrow> nat \<Rightarrow> 'a state
     \<Rightarrow> (error + nat) \<times> 'a state" where
  "sparse_sampled_addmm_out_sparse_csr_cpu env self mat1 mat2 beta alpha result st =
     (case sampled_addmm_checks (debug_build env) (heap st self) (heap st mat1) (heap st mat2)
             (heap st result) of
        Some e \<Rightarrow> (Inl e, st)
      | None \<Rightarrow>
          let st1 = sampled_addmm_prepare_output env self result st;
              h = heap st1
          in (Inr result,
              st1\<lparr>heap := h(result :=
                    copy_into (h result)
                      (sparse_mask (addmm (to_dense (h self)) (h mat1) (h mat2) beta alpha)
                         (h self)))\<rparr>))"

text \<open>
  The stored entries of a CSR matrix, row by row: each coordinate with its value.
\<close>

definition csr_entries :: "'a tensor \<Rightarrow> ((nat \<times> nat) \<times> 'a) list" where
  "csr_entries t =
     concat (map (\<lambda>i. map (\<lambda>p. ((i, col_indices t ! p), vals t ! p)) (csr_row t i))
               [0..<sizes t ! 0])"

text \<open>
  A well-formed CSR matrix: two dimensions, row pointers that start at zero, do not
  decrease and end at the number of stored entries, one value for each stored entry,
  column indices inside the matrix, and no column stored twice in a row.
\<close>

definition valid_csr :: "'a tensor \<Rightarrow> bool" where
  "valid_csr t =
     (dim t = 2
      \<and> length (crow_indices t) = Suc (sizes t ! 0)
      \<and> crow_indices t ! 0 = 0
      \<and> (\<forall>i \<in> set [0..<sizes t ! 0]. crow_indices t ! i \<le> crow_indices t ! Suc i)
      \<and> crow_indices t ! (sizes t ! 0) = nnz t
      \<and> length (vals t) = nnz t
      \<and> (\<forall>p \<in> set [0..<nnz t]. col_indices t ! p < sizes t ! 1)
      \<and> (\<forall>i \<in> set [0..<sizes t ! 0]. distinct (map (\<lambda>p. col_indices t ! p) (csr_row t i))))"

section \<open>The backend kernel of addmv, from its contract\<close>

text \<open>
  Row \<open>i\<close> of the product of a CSR matrix and a dense vector.
\<close>

definition csr_matvec_at :: "'a::{monoid_add,times} tensor \<Rightarrow> 'a tensor \<Rightarrow> nat \<Rightarrow> 'a" where
  "csr_matvec_at mat vec i =
     sum_list (map (\<lambda>p. vals mat ! p * vals vec ! (col_indices mat ! p)) (csr_row mat i))"

text \<open>
  Modelled from the spec: the kernel \<^verbatim>\<open>sparse::impl::cpu::addmv_out_sparse_csr\<close> of
  \<^verbatim>\<open>SparseBlasImpl\<close>, which this file calls and does not define. It writes
  \<open>\<beta>\<cdot>out + \<alpha>\<cdot>(mat @ vec)\<close> into the output buffer, and does not read the buffer when
  \<open>\<beta>\<close> is zero.
\<close>

definition spec_addmv_kernel ::
  "'a::{monoid_add,times} tensor \<Rightarrow> 'a tensor \<Rightarrow> 'a \<Rightarrow> 'a \<Rightarrow> 'a tensor \<Rightarrow> 'a tensor option" where
  "spec_addmv_kernel mat vec beta alpha out =
     Some (out\<lparr>vals := map (\<lambda>i. if beta = 0 then alpha * csr_matvec_at mat vec i
                                else beta * (vals out ! i) + alpha * csr_matvec_at mat vec i)
                          [0..<sizes mat ! 0]\<rparr>)"

section \<open>Example operands\<close>

definition ex_dense :: "nat list \<Rightarrow> int list \<Rightarrow> int tensor" where
  "ex_dense shape xs =
     \<lparr>layout = kStrided, scalar_type = kLong, sizes = shape, vals = xs,
      crow_indices = [], col_indices = []\<rparr>"

definition ex_csr :: "nat list \<Rightarrow> nat list \<Rightarrow> nat list \<Rightarrow> int list \<Rightarrow> int tensor" where
  "ex_csr shape crow col xs =
     \<lparr>layout = kSparseCsr, scalar_type = kLong, sizes = shape, vals = xs,
      crow_indices = crow, col_indices = col\<rparr>"

text \<open>
  A backend with the kernel of the contract for addmv, and a triangular solve that
  answers with the right-hand side, as for a unit diagonal with nothing else stored.
\<close>

definition ex_backend :: "bool \<Rightarrow> int backend" where
  "ex_backend dbg =
     \<lparr>debug_build = dbg, uninitialized = (\<lambda>i. 77),
      cpu_addmv_out_sparse_csr = spec_addmv_kernel,
      cpu_triangular_solve_out_sparse_csr =
        (\<lambda>A B X upper transpose' unitriangular. Some (X\<lparr>sizes := sizes B, vals := vals B\<rparr>))\<rparr>"

text \<open>
  The operands of the addmv example of the spec: \<open>self = [1, 2, 3]\<close> at address 0, a 3\<times>3
  matrix with no stored entry at 1, a vector at 2, an empty output buffer at 3.
\<close>

definition ex_addmv_empty :: "int state" where
  "ex_addmv_empty =
     \<lparr>heap = (\<lambda>a. ex_dense [0] [])
        (0 := ex_dense [3] [1, 2, 3],
         1 := ex_csr [3, 3] [0, 0, 0, 0] [] [],
         2 := ex_dense [3] [1, 1, 1],
         3 := ex_dense [0] []),
      kernel_calls = 0\<rparr>"

text \<open>
  The operands of the sampled_addmm example of the spec: \<open>self\<close> with the pattern of the
  2\<times>2 identity and stored values 1 at address 0, the 2\<times>3 and 3\<times>2 matrices of ones at 1 and
  2, an empty CSR output buffer at 3.
\<close>

definition ex_sampled :: "int state" where
  "ex_sampled =
     \<lparr>heap = (\<lambda>a. ex_dense [0] [])
        (0 := ex_csr [2, 2] [0, 1, 2] [0, 1] [1, 1],
         1 := ex_dense [2, 3] [1, 1, 1, 1, 1, 1],
         2 := ex_dense [3, 2] [1, 1, 1, 1, 1, 1],
         3 := ex_csr [0, 0] [0] [] []),
      kernel_calls = 0\<rparr>"

text \<open>
  Operands of addmv with a matrix that stores three entries, a second buffer at address 3
  that holds what \<open>self\<close> holds, and empty buffers elsewhere.
\<close>

definition ex_addmv_full :: "int state" where
  "ex_addmv_full =
     \<lparr>heap = (\<lambda>a. ex_dense [0] [])
        (0 := ex_dense [3] [1, 2, 3],
         1 := ex_csr [3, 3] [0, 2, 2, 3] [0, 2, 1] [1, 2, 3],
         2 := ex_dense [3] [1, 1, 1],
         3 := ex_dense [3] [1, 2, 3]),
      kernel_calls = 0\<rparr>"

text \<open>
  Operands of addmv where \<open>self\<close> has one element and is broadcast to three.
\<close>

definition ex_addmv_broadcast :: "int state" where
  "ex_addmv_broadcast =
     \<lparr>heap = (\<lambda>a. ex_dense [0] [])
        (0 := ex_dense [1] [7],
         1 := ex_csr [3, 3] [0, 0, 0, 0] [] [],
         2 := ex_dense [3] [1, 1, 1],
         3 := ex_dense [1] [7]),
      kernel_calls = 0\<rparr>"

text \<open>
  Operands of addmv where \<open>mat\<close> has three dimensions.
\<close>

definition ex_addmv_batched :: "int state" where
  "ex_addmv_batched =
     \<lparr>heap = (\<lambda>a. ex_dense [0] [])
        (0 := ex_dense [3] [1, 2, 3],
         1 := ex_csr [2, 3, 3] [0, 0, 0, 0] [] [],
         2 := ex_dense [3] [1, 1, 1]),
      kernel_calls = 0\<rparr>"

text \<open>
  The operands of the sampled_addmm example with another dtype for \<open>mat2\<close>, with a
  \<open>mat2\<close> of two rows, and with a \<open>self\<close> of one dimension.
\<close>

definition ex_sampled_dtype :: "int state" where
  "ex_sampled_dtype =
     ex_sampled\<lparr>heap := (heap ex_sampled)(2 := (heap ex_sampled 2)\<lparr>scalar_type := kDouble\<rparr>)\<rparr>"

definition ex_sampled_shape :: "int state" where
  "ex_sampled_shape =
     ex_sampled\<lparr>heap := (heap ex_sampled)(2 := ex_dense [2, 2] [1, 1, 1, 1])\<rparr>"

definition ex_sampled_rank1 :: "int state" where
  "ex_sampled_rank1 = ex_sampled\<lparr>heap := (heap ex_sampled)(0 := ex_dense [2] [1, 1])\<rparr>"

text \<open>
  Operands of triangular_solve: the right-hand side at 0, the matrix at 1, the buffers
  \<open>X\<close> and \<open>clone_A\<close> at 2 and 3.
\<close>

definition ex_solve :: "int state" where
  "ex_solve =
     \<lparr>heap = (\<lambda>a. ex_dense [0] [])
        (0 := ex_dense [2, 1] [5, 6],
         1 := ex_csr [2, 2] [0, 1, 2] [0, 1] [1, 1],
         2 := ex_dense [0] [],
         3 := ex_dense [2, 2] [9, 9, 9, 9]),
      kernel_calls = 0\<rparr>"

section \<open>Properties of addmv\<close>

lemma chain_mono:
  fixes c :: "nat list"
  assumes "\<forall>i<k. c ! i \<le> c ! Suc i" "i \<le> j" "j \<le> k"
  shows "c ! i \<le> c ! j"
  using assms(2,3)
proof (induction j)
  case 0
  then show ?case by simp
next
  case (Suc j)
  show ?case
  proof (cases "i = Suc j")
    case True
    then show ?thesis by simp
  next
    case False
    with Suc.prems have "i \<le> j" "j < k" by simp_all
    with assms(1) Suc.IH show ?thesis by fastforce
  qed
qed

lemma expand_size_sizes:
  "expand_size t m = Inr se \<Longrightarrow> sizes se = [m]"
  by (auto simp: expand_size_def split: if_splits)

lemma vals_mul_out_scalar:
  "vals (mul_out out a (scalar_tensor b dt)) = map (\<lambda>x. x * b) (vals a)"
proof -
  have "concat (map (\<lambda>x. [x * b]) xs) = map (\<lambda>x. x * b) xs" for xs :: "'a list"
    by (induction xs) simp_all
  then show ?thesis by (simp add: mul_out_def scalar_tensor_def)
qed

lemma sizes_mul_out: "sizes (mul_out out a other) = sizes a"
  by (simp add: mul_out_def)

lemma prepare_aliased: "addmv_prepare_output env self se b self st = st"
  by (simp add: addmv_prepare_output_def)

lemma prepare_other:
  "a \<noteq> result \<Longrightarrow> heap (addmv_prepare_output env self se b result st) a = heap st a"
  by (simp add: addmv_prepare_output_def Let_def)

lemma prepare_kernel_calls:
  "kernel_calls (addmv_prepare_output env self se b result st) = kernel_calls st"
  by (simp add: addmv_prepare_output_def Let_def)

lemma prepare_sizes:
  "result \<noteq> self \<Longrightarrow> sizes (heap (addmv_prepare_output env self se b result st) result) = sizes se"
  by (simp add: addmv_prepare_output_def Let_def resize_output_def copy_into_def)

lemma resize_output_numel:
  "length (vals t) = numel t \<Longrightarrow>
   length (vals (resize_output fresh t shape)) = numel (resize_output fresh t shape)"
  by (simp add: resize_output_def numel_def)

lemma sizes_resize_output: "sizes (resize_output fresh t shape) = shape"
  by (simp add: resize_output_def)

lemma prepare_no_copy:
  "result \<noteq> self \<Longrightarrow>
   heap (addmv_prepare_output env self se 0 result st) result =
     resize_output (uninitialized env) (heap st result) (sizes se)"
  by (simp add: addmv_prepare_output_def Let_def)

lemma numel_zero_fill: "numel (zero_fill t) = numel t"
  by (simp add: zero_fill_def numel_def)

lemma vals_zero_fill: "vals (zero_fill t) = replicate (length (vals t)) 0"
  by (simp add: zero_fill_def map_replicate_const)

lemma sizes_zero_fill: "sizes (zero_fill t) = sizes t"
  by (simp add: zero_fill_def)

lemma addmv_checked:
  fixes env :: "'a::{zero,times} backend"
  assumes "debug_build env \<longrightarrow> is_sparse_csr (heap st mat)"
    and "dim (heap st mat) = 2" and "dim (heap st vec) = 1"
    and "expand_size (heap st self) (sizes (heap st mat) ! 0) = Inr se"
  shows "addmv_out_sparse_csr env self mat vec beta alpha result st =
     (let st1 = addmv_prepare_output env self se beta result st in
      if nnz (heap st1 mat) = 0 then
        (if beta = 0 then
           (Inr result, st1\<lparr>heap := (heap st1)(result := zero_fill (heap st1 result))\<rparr>)
         else
           (Inr result,
            st1\<lparr>heap := (heap st1)(result :=
               mul_out (heap st1 result) (heap st1 self)
                 (scalar_tensor beta (scalar_type (heap st1 self))))\<rparr>))
      else addmv_dispatch env mat vec beta alpha result st1)"
  using assms by (cases "debug_build env") (simp_all add: addmv_out_sparse_csr_def)

lemma expand_size_same: "sizes t = [m] \<Longrightarrow> expand_size t m = Inr t"
  by (simp add: expand_size_def)

lemma prepare_same_contents:
  assumes "heap st out = heap st self"
  shows "addmv_prepare_output env self (heap st self) b out st = st"
proof (cases "out = self")
  case True
  then show ?thesis by (simp add: addmv_prepare_output_def)
next
  case False
  have "(heap st)(out := heap st self) = heap st"
    using assms by (metis fun_upd_triv)
  then show ?thesis
    using assms by (simp add: addmv_prepare_output_def Let_def resize_output_def copy_into_def)
qed







text \<open>
  C1. When \<open>mat\<close> has no stored entry and the call passes its checks, the backend kernel
  is not called (the counter of kernel calls is unchanged) and the call returns. If
  \<open>\<beta> = 0\<close>, every element of the result is zero, whatever \<open>self\<close> holds; the elements are
  of any type with a zero and a product, so nothing is assumed of the arithmetic. If
  \<open>\<beta> \<noteq> 0\<close>, the result has the shape of \<open>self\<close> and holds each element of \<open>self\<close>
  multiplied by \<open>\<beta>\<close>.
\<close>

theorem addmv_empty_matrix_shortcut:
  fixes env :: "'a::{zero,times} backend"
  assumes contract: "debug_build env \<longrightarrow> is_sparse_csr (heap st mat)"
    and mat2d: "dim (heap st mat) = 2"
    and vec1d: "dim (heap st vec) = 1"
    and bcast: "expand_size (heap st self) (sizes (heap st mat) ! 0) = Inr se"
    and empty: "nnz (heap st mat) = 0"
    and noalias: "mat \<noteq> result"
    and wf: "length (vals (heap st result)) = numel (heap st result)"
  shows "fst (addmv_out_sparse_csr env self mat vec beta alpha result st) = Inr result
    \<and> kernel_calls (snd (addmv_out_sparse_csr env self mat vec beta alpha result st)) = kernel_calls st
    \<and> (beta = 0 \<longrightarrow>
         (let r = heap (snd (addmv_out_sparse_csr env self mat vec beta alpha result st)) result
          in vals r = replicate (numel r) 0
             \<and> sizes r = (if result = self then sizes (heap st self) else [sizes (heap st mat) ! 0])))
    \<and> (beta \<noteq> 0 \<longrightarrow>
         (let r = heap (snd (addmv_out_sparse_csr env self mat vec beta alpha result st)) result
          in vals r = map (\<lambda>x. x * beta) (vals (heap st self))
             \<and> sizes r = sizes (heap st self)))"
proof -
  let ?st1 = "addmv_prepare_output env self se beta result st"
  have unf: "addmv_out_sparse_csr env self mat vec beta alpha result st =
      (if beta = 0 then
         (Inr result, ?st1\<lparr>heap := (heap ?st1)(result := zero_fill (heap ?st1 result))\<rparr>)
       else
         (Inr result, ?st1\<lparr>heap := (heap ?st1)(result :=
             mul_out (heap ?st1 result) (heap ?st1 self)
               (scalar_tensor beta (scalar_type (heap ?st1 self))))\<rparr>))"
    using contract mat2d vec1d bcast empty
    by (simp add: addmv_out_sparse_csr_def Let_def prepare_other[OF noalias])
  show ?thesis
  proof (cases "result = self")
    case True
    then show ?thesis
      unfolding unf
      unfolding unf using wf
      by (simp add: Let_def prepare_aliased vals_zero_fill sizes_zero_fill numel_zero_fill
            vals_mul_out_scalar sizes_mul_out)
  next
    case False
    then have "self \<noteq> result" by simp
    with False show ?thesis
      unfolding unf using expand_size_sizes[OF bcast] resize_output_numel[OF wf]
      by (simp add: Let_def prepare_kernel_calls prepare_sizes prepare_other prepare_no_copy
            vals_zero_fill sizes_zero_fill numel_zero_fill sizes_resize_output
            vals_mul_out_scalar sizes_mul_out)
  qed
qed

theorem addmv_empty_matrix_shortcut_witness:
  "fst (addmv_out_sparse_csr (ex_backend True) 0 1 2 2 5 3 ex_addmv_empty) = Inr 3
   \<and> kernel_calls (snd (addmv_out_sparse_csr (ex_backend True) 0 1 2 2 5 3 ex_addmv_empty)) = 0
   \<and> vals (heap (snd (addmv_out_sparse_csr (ex_backend True) 0 1 2 2 5 3 ex_addmv_empty)) 3)
       = [2, 4, 6]
   \<and> vals (heap (snd (addmv_out_sparse_csr (ex_backend True) 0 1 2 0 5 3 ex_addmv_empty)) 3)
       = [0, 0, 0]"
proof -
  have h: "debug_build (ex_backend True) \<longrightarrow> is_sparse_csr (heap ex_addmv_empty 1)"
    "dim (heap ex_addmv_empty 1) = 2" "dim (heap ex_addmv_empty 2) = 1"
    "expand_size (heap ex_addmv_empty 0) (sizes (heap ex_addmv_empty 1) ! 0)
       = Inr (ex_dense [3] [1, 2, 3])"
    "nnz (heap ex_addmv_empty 1) = 0" "(1::nat) \<noteq> 3"
    "length (vals (heap ex_addmv_empty 3)) = numel (heap ex_addmv_empty 3)"
    by (simp_all add: ex_addmv_empty_def ex_dense_def ex_csr_def ex_backend_def is_sparse_csr_def
          dim_def nnz_def expand_size_def numel_def)
  have v: "vals (heap ex_addmv_empty 0) = [1, 2, 3]" "sizes (heap ex_addmv_empty 1) ! 0 = 3"
    "kernel_calls ex_addmv_empty = 0"
    by (simp_all add: ex_addmv_empty_def ex_dense_def ex_csr_def)
  show ?thesis
    using addmv_empty_matrix_shortcut[OF h, of 2 5] addmv_empty_matrix_shortcut[OF h, of 0 5] v
    by (simp add: Let_def numel_def eval_nat_numeral)
qed





text \<open>
  C5, as stated, fails where \<open>self\<close> is broadcast: with a \<open>self\<close> of one element, a 3\<times>3
  matrix that stores nothing and \<open>\<beta> = 0\<close>, the call on \<open>self\<close> itself leaves one zero, and
  the call on another buffer with the same contents leaves three.
\<close>

theorem addmv_alias_broadcast_self_differs:
  "heap ex_addmv_broadcast 3 = heap ex_addmv_broadcast 0
   \<and> vals (heap (snd (addmv_out_sparse_csr (ex_backend True) 0 1 2 0 5 0 ex_addmv_broadcast)) 0)
       = [0]
   \<and> vals (heap (snd (addmv_out_sparse_csr (ex_backend True) 0 1 2 0 5 3 ex_addmv_broadcast)) 3)
       = [0, 0, 0]"
  by code_simp

text \<open>
  C5, amended. When \<open>self\<close> has the shape of the output already, one element for each row
  of \<open>mat\<close>, the call whose output is \<open>self\<close> and the call whose output is another buffer
  with the same contents fail alike or return alike, each its own output, leave the same
  tensor in the output and call the kernel as often, for all \<open>mat\<close>, \<open>vec\<close>, \<open>\<beta>\<close> and \<open>\<alpha>\<close>.
\<close>

theorem addmv_alias_safe_same_shape:
  fixes env :: "'a::{zero,times} backend"
  assumes shape: "sizes (heap st self) = [sizes (heap st mat) ! 0]"
    and other: "out \<noteq> self" "out \<noteq> mat" "out \<noteq> vec"
    and same: "heap st out = heap st self"
  shows "(case fst (addmv_out_sparse_csr env self mat vec beta alpha self st) of
            Inl e \<Rightarrow> fst (addmv_out_sparse_csr env self mat vec beta alpha out st) = Inl e
          | Inr r \<Rightarrow> r = self
              \<and> fst (addmv_out_sparse_csr env self mat vec beta alpha out st) = Inr out)
     \<and> heap (snd (addmv_out_sparse_csr env self mat vec beta alpha self st)) self
         = heap (snd (addmv_out_sparse_csr env self mat vec beta alpha out st)) out
     \<and> kernel_calls (snd (addmv_out_sparse_csr env self mat vec beta alpha self st))
         = kernel_calls (snd (addmv_out_sparse_csr env self mat vec beta alpha out st))"
proof (cases "(debug_build env \<longrightarrow> is_sparse_csr (heap st mat))
    \<and> dim (heap st mat) = 2 \<and> dim (heap st vec) = 1")
  case False
  then show ?thesis
    using same by (auto simp: addmv_out_sparse_csr_def)
next
  case True
  note e = expand_size_same[OF shape]
  have p1: "addmv_prepare_output env self (heap st self) beta self st = st"
    by (simp add: prepare_aliased)
  have p2: "addmv_prepare_output env self (heap st self) beta out st = st"
    using same by (rule prepare_same_contents)
  have a: "addmv_out_sparse_csr env self mat vec beta alpha r st =
      (if nnz (heap st mat) = 0 then
        (if beta = 0 then (Inr r, st\<lparr>heap := (heap st)(r := zero_fill (heap st r))\<rparr>)
         else (Inr r, st\<lparr>heap := (heap st)(r :=
               mul_out (heap st r) (heap st self) (scalar_tensor beta (scalar_type (heap st self))))\<rparr>))
      else addmv_dispatch env mat vec beta alpha r st)" if "r = self \<or> r = out" for r
    using that True p1 p2 addmv_checked[OF _ _ _ e, of env vec beta alpha r]
    by (auto simp: Let_def)
  show ?thesis
    unfolding a[of self, simplified] a[of out, simplified]
    using same by (simp add: addmv_dispatch_def split: option.splits)
qed

theorem addmv_alias_safe_same_shape_witness:
  "sizes (heap ex_addmv_full 0) = [sizes (heap ex_addmv_full 1) ! 0]
   \<and> heap ex_addmv_full 3 = heap ex_addmv_full 0
   \<and> vals (heap (snd (addmv_out_sparse_csr (ex_backend True) 0 1 2 2 5 0 ex_addmv_full)) 0)
       = [17, 4, 21]
   \<and> vals (heap (snd (addmv_out_sparse_csr (ex_backend True) 0 1 2 2 5 3 ex_addmv_full)) 3)
       = [17, 4, 21]"
proof -
  have h: "sizes (heap ex_addmv_full 0) = [sizes (heap ex_addmv_full 1) ! 0]"
    "(3::nat) \<noteq> 0" "(3::nat) \<noteq> 1" "(3::nat) \<noteq> 2"
    "heap ex_addmv_full 3 = heap ex_addmv_full 0"
    by (simp_all add: ex_addmv_full_def ex_dense_def ex_csr_def)
  have v: "vals (heap (snd (addmv_out_sparse_csr (ex_backend True) 0 1 2 2 5 0 ex_addmv_full)) 0)
       = [17, 4, 21]"
    by code_simp
  show ?thesis
    using addmv_alias_safe_same_shape[OF h, of "ex_backend True" 2 5] h v by simp
qed

text \<open>
  C8, as stated, fails for the dimension of \<open>mat\<close>: in a build without debug assertions,
  a \<open>mat\<close> of three dimensions is rejected by the check of line 35.
\<close>

theorem addmv_mat_2d_check_is_always_active:
  "fst (addmv_out_sparse_csr (ex_backend False) 0 1 2 2 5 3 ex_addmv_batched)
     = Inl (TorchCheck ''addmv: Expected mat to be 2-D'')"
  by (simp add: addmv_out_sparse_csr_def ex_backend_def ex_addmv_batched_def ex_csr_def dim_def)

text \<open>
  C8, amended. Only the CSR layout of \<open>mat\<close> is a debug-only assertion: it fails first in
  a debug build and never in a build without debug assertions. That \<open>mat\<close> has two
  dimensions is a check of every build, which leaves the store as it was.
\<close>

theorem addmv_mat_preconditions:
  fixes env :: "'a::{zero,times} backend"
  shows "(debug_build env \<and> \<not> is_sparse_csr (heap st mat) \<longrightarrow>
            addmv_out_sparse_csr env self mat vec beta alpha result st
              = (Inl (InternalAssert ''mat.is_sparse_csr()''), st))
     \<and> (\<not> debug_build env \<longrightarrow>
            fst (addmv_out_sparse_csr env self mat vec beta alpha result st) \<noteq> Inl (InternalAssert msg))
     \<and> ((debug_build env \<longrightarrow> is_sparse_csr (heap st mat)) \<and> dim (heap st mat) \<noteq> 2 \<longrightarrow>
            addmv_out_sparse_csr env self mat vec beta alpha result st
              = (Inl (TorchCheck ''addmv: Expected mat to be 2-D''), st))"
  by (auto simp: addmv_out_sparse_csr_def addmv_dispatch_def expand_size_def Let_def
        split: sum.splits option.splits if_splits)

theorem addmv_mat_preconditions_witness:
  "addmv_out_sparse_csr (ex_backend True) 0 3 2 2 5 4 ex_addmv_full
     = (Inl (InternalAssert ''mat.is_sparse_csr()''), ex_addmv_full)
   \<and> fst (addmv_out_sparse_csr (ex_backend False) 0 3 2 2 5 4 ex_addmv_full)
       \<noteq> Inl (InternalAssert ''mat.is_sparse_csr()'')
   \<and> addmv_out_sparse_csr (ex_backend True) 0 1 2 2 5 3 ex_addmv_batched
     = (Inl (TorchCheck ''addmv: Expected mat to be 2-D''), ex_addmv_batched)"
proof -
  have a: "debug_build (ex_backend True) \<and> \<not> is_sparse_csr (heap ex_addmv_full 3)"
    by (simp add: ex_backend_def ex_addmv_full_def ex_dense_def is_sparse_csr_def)
  have b: "\<not> debug_build (ex_backend False)"
    by (simp add: ex_backend_def)
  have c: "(debug_build (ex_backend True) \<longrightarrow> is_sparse_csr (heap ex_addmv_batched 1))
      \<and> dim (heap ex_addmv_batched 1) \<noteq> 2"
    by (simp add: ex_backend_def ex_addmv_batched_def ex_csr_def is_sparse_csr_def dim_def)
  show ?thesis
    using addmv_mat_preconditions[of "ex_backend True" ex_addmv_full 3 0 2 2 5 4]
      addmv_mat_preconditions[of "ex_backend False" ex_addmv_full 3 0 2 2 5 4 "''mat.is_sparse_csr()''"]
      addmv_mat_preconditions[of "ex_backend True" ex_addmv_batched 1 0 2 2 5 3]
      a b c
    by simp
qed

section \<open>Properties of triangular_solve\<close>

text \<open>
  C9. A call that returns gives the pair of \<open>X\<close> and \<open>clone_A\<close>, and it returns whenever
  the kernel does, with what the kernel gave in \<open>X\<close>. Every buffer other than \<open>X\<close> is left
  as it was, the kernel is called once, and the contents of \<open>clone_A\<close> are not read: with
  any other tensor there, the outcome and \<open>X\<close> are the same and that tensor is still there.
\<close>

theorem triangular_solve_returns_buffers:
  "(fst (triangular_solve_out_sparse_csr_cpu env B A upper transpose' unitriangular X clone_A st)
        = Inr r \<longrightarrow> r = (X, clone_A))
   \<and> (cpu_triangular_solve_out_sparse_csr env (heap st A) (heap st B) (heap st X)
         upper transpose' unitriangular = Some x \<longrightarrow>
        fst (triangular_solve_out_sparse_csr_cpu env B A upper transpose' unitriangular X clone_A st)
          = Inr (X, clone_A)
        \<and> heap (snd (triangular_solve_out_sparse_csr_cpu env B A upper transpose' unitriangular
                   X clone_A st)) X = x)
   \<and> (a \<noteq> X \<longrightarrow>
        heap (snd (triangular_solve_out_sparse_csr_cpu env B A upper transpose' unitriangular
                 X clone_A st)) a = heap st a)
   \<and> kernel_calls (snd (triangular_solve_out_sparse_csr_cpu env B A upper transpose' unitriangular
                 X clone_A st)) = Suc (kernel_calls st)
   \<and> (clone_A \<noteq> A \<and> clone_A \<noteq> B \<and> clone_A \<noteq> X \<longrightarrow>
        fst (triangular_solve_out_sparse_csr_cpu env B A upper transpose' unitriangular X clone_A
               (st\<lparr>heap := (heap st)(clone_A := t)\<rparr>))
          = fst (triangular_solve_out_sparse_csr_cpu env B A upper transpose' unitriangular
                   X clone_A st)
        \<and> heap (snd (triangular_solve_out_sparse_csr_cpu env B A upper transpose' unitriangular
                   X clone_A (st\<lparr>heap := (heap st)(clone_A := t)\<rparr>))) X
          = heap (snd (triangular_solve_out_sparse_csr_cpu env B A upper transpose' unitriangular
                   X clone_A st)) X
        \<and> heap (snd (triangular_solve_out_sparse_csr_cpu env B A upper transpose' unitriangular
                   X clone_A (st\<lparr>heap := (heap st)(clone_A := t)\<rparr>))) clone_A = t)"
  by (auto simp: triangular_solve_out_sparse_csr_cpu_def split: option.splits)

theorem triangular_solve_returns_buffers_witness:
  "fst (triangular_solve_out_sparse_csr_cpu (ex_backend True) 0 1 False False False 2 3 ex_solve)
     = Inr (2, 3)
   \<and> vals (heap (snd (triangular_solve_out_sparse_csr_cpu (ex_backend True) 0 1 False False False
        2 3 ex_solve)) 2) = [5, 6]
   \<and> heap (snd (triangular_solve_out_sparse_csr_cpu (ex_backend True) 0 1 False False False
        2 3 ex_solve)) 3 = ex_dense [2, 2] [9, 9, 9, 9]
   \<and> kernel_calls (snd (triangular_solve_out_sparse_csr_cpu (ex_backend True) 0 1 False False
        False 2 3 ex_solve)) = 1
   \<and> heap (snd (triangular_solve_out_sparse_csr_cpu (ex_backend True) 0 1 False False False
        2 3 (ex_solve\<lparr>heap := (heap ex_solve)(3 := ex_dense [1] [0])\<rparr>))) 2
     = heap (snd (triangular_solve_out_sparse_csr_cpu (ex_backend True) 0 1 False False False
        2 3 ex_solve)) 2"
proof -
  have k: "cpu_triangular_solve_out_sparse_csr (ex_backend True) (heap ex_solve 1) (heap ex_solve 0)
      (heap ex_solve 2) False False False = Some (ex_dense [2, 1] [5, 6])"
    by (simp add: ex_backend_def ex_solve_def ex_dense_def)
  have d: "(3::nat) \<noteq> 2" "(3::nat) \<noteq> 1 \<and> (3::nat) \<noteq> 0 \<and> (3::nat) \<noteq> 2"
    by simp_all
  have s: "heap ex_solve 3 = ex_dense [2, 2] [9, 9, 9, 9]" "kernel_calls ex_solve = 0"
    "vals (ex_dense [2, 1] [5, 6]) = [5, 6]"
    by (simp_all add: ex_solve_def ex_dense_def)
  show ?thesis
    using triangular_solve_returns_buffers[where env = "ex_backend True" and B = 0 and A = 1
        and upper = False and transpose' = False and unitriangular = False and X = 2
        and clone_A = 3 and st = ex_solve and r = "(2, 3)" and x = "ex_dense [2, 1] [5, 6]"
        and a = 3 and t = "ex_dense [1] [0]"] k d s
    by simp
qed

section \<open>Properties of sampled_addmm\<close>

lemma concat_rows:
  fixes c :: "nat list"
  assumes "c ! 0 = 0" and "\<forall>i<k. c ! i \<le> c ! Suc i"
  shows "length (concat (map (\<lambda>i. map (g i) [c ! i..<c ! Suc i]) [0..<k])) = c ! k
    \<and> (\<forall>i<k. \<forall>p. c ! i \<le> p \<and> p < c ! Suc i \<longrightarrow>
          concat (map (\<lambda>i. map (g i) [c ! i..<c ! Suc i]) [0..<k]) ! p = g i p)"
  using assms(2)
proof (induction k)
  case 0
  then show ?case using assms(1) by simp
next
  case (Suc k)
  let ?xs = "concat (map (\<lambda>i. map (g i) [c ! i..<c ! Suc i]) [0..<k])"
  from Suc have IH: "length ?xs = c ! k"
    "\<And>i p. i < k \<Longrightarrow> c ! i \<le> p \<Longrightarrow> p < c ! Suc i \<Longrightarrow> ?xs ! p = g i p"
    by simp_all
  from Suc.prems have le: "c ! k \<le> c ! Suc k" by simp
  have below: "c ! Suc i \<le> c ! k" if "i < k" for i
    using chain_mono[of k c "Suc i" k] Suc.prems that by simp
  have len: "length (concat (map (\<lambda>i. map (g i) [c ! i..<c ! Suc i]) [0..<Suc k])) = c ! Suc k"
    using IH(1) le by simp
  have nth: "concat (map (\<lambda>i. map (g i) [c ! i..<c ! Suc i]) [0..<Suc k]) ! p = g i p"
    if "i < Suc k" "c ! i \<le> p" "p < c ! Suc i" for i p
  proof (cases "i < k")
    case True
    with that below[of i] have "p < length ?xs" by (simp add: IH(1))
    then show ?thesis using IH(2)[OF True that(2,3)] by (simp add: nth_append)
  next
    case False
    with that have "i = k" by simp
    with that show ?thesis by (simp add: nth_append IH(1))
  qed
  show ?case using len nth by blast
qed

lemma filter_unique:
  assumes "distinct (map f xs)" "p \<in> set xs"
  shows "filter (\<lambda>q. f q = f p) xs = [p]"
  using assms
proof (induction xs)
  case Nil
  then show ?case by simp
next
  case (Cons x xs)
  show ?case
  proof (cases "x = p")
    case True
    with Cons.prems have "\<forall>q \<in> set xs. f q \<noteq> f p" by (auto simp: image_iff)
    then have "filter (\<lambda>q. f q = f p) xs = []" by (simp add: filter_empty_conv)
    with True show ?thesis by simp
  next
    case False
    with Cons.prems have "p \<in> set xs" "f x \<noteq> f p" by auto
    with Cons show ?thesis by simp
  qed
qed

lemma div_mod_index:
  fixes i j n :: nat
  assumes "j < n"
  shows "(i * n + j) div n = i" "(i * n + j) mod n = j"
  using assms by simp_all

lemma index_bound:
  fixes i j m n :: nat
  assumes "i < m" "j < n"
  shows "i * n + j < m * n"
proof -
  have "i * n + j < i * n + n" using assms by simp
  also have "\<dots> = Suc i * n" by simp
  also have "\<dots> \<le> m * n" using assms(1) by (intro mult_le_mono1) simp
  finally show ?thesis .
qed

lemma sampled_addmm_checks_None:
  assumes "sampled_addmm_checks dbg s m1 m2 r = None"
  shows "layout m1 = kStrided" "layout m2 = kStrided" "layout r = kSparseCsr"
    "scalar_type m1 = scalar_type m2" "scalar_type m1 = scalar_type s"
    "scalar_type r = scalar_type s" "dim m1 = 2" "dim m2 = 2" "dim r = 2"
    "sizes m1 ! 1 = sizes m2 ! 0" "2 \<le> dim s" "sizes s ! 0 = sizes m1 ! 0"
    "sizes s ! 1 = sizes m2 ! 1" "dbg \<longrightarrow> is_sparse_csr s"
  using assms by (simp_all add: sampled_addmm_checks_def split: if_splits)

lemma sampled_addmm_success:
  fixes env :: "'a::{monoid_add,times} backend"
  assumes "sampled_addmm_checks (debug_build env) (heap st self) (heap st mat1) (heap st mat2)
             (heap st result) = None"
  shows "fst (sparse_sampled_addmm_out_sparse_csr_cpu env self mat1 mat2 beta alpha result st)
           = Inr result"
    and "heap (snd (sparse_sampled_addmm_out_sparse_csr_cpu env self mat1 mat2 beta alpha result st))
           result =
         (if result = self then heap st self
          else resize_as_sparse_csr (uninitialized env) (heap st result) (heap st self))
         \<lparr>vals := vals (sparse_mask
                    (addmm (to_dense (heap st self)) (heap st mat1) (heap st mat2) beta alpha)
                    (heap st self)),
          crow_indices := crow_indices (heap st self),
          col_indices := col_indices (heap st self)\<rparr>"
proof -
  note c = sampled_addmm_checks_None[OF assms]
  from c(1,3) have m1: "mat1 \<noteq> result" by auto
  from c(2,3) have m2: "mat2 \<noteq> result" by auto
  show "fst (sparse_sampled_addmm_out_sparse_csr_cpu env self mat1 mat2 beta alpha result st)
           = Inr result"
    using assms by (simp add: sparse_sampled_addmm_out_sparse_csr_cpu_def Let_def)
  show "heap (snd (sparse_sampled_addmm_out_sparse_csr_cpu env self mat1 mat2 beta alpha result st))
           result =
         (if result = self then heap st self
          else resize_as_sparse_csr (uninitialized env) (heap st result) (heap st self))
         \<lparr>vals := vals (sparse_mask
                    (addmm (to_dense (heap st self)) (heap st mat1) (heap st mat2) beta alpha)
                    (heap st self)),
          crow_indices := crow_indices (heap st self),
          col_indices := col_indices (heap st self)\<rparr>"
    using assms m1 m2 c(3)
    by (simp add: sparse_sampled_addmm_out_sparse_csr_cpu_def Let_def
          sampled_addmm_prepare_output_def copy_into_def resize_as_sparse_csr_def sparse_mask_def)
qed

lemma valid_csr_row_bounds:
  assumes "valid_csr t" "i < sizes t ! 0" "p \<in> set (csr_row t i)"
  shows "crow_indices t ! i \<le> p" "p < crow_indices t ! Suc i" "p < nnz t"
    "col_indices t ! p < sizes t ! 1"
proof -
  from assms(3) show a: "crow_indices t ! i \<le> p" and b: "p < crow_indices t ! Suc i"
    by (simp_all add: csr_row_def)
  from assms(1) have ch: "\<forall>i<sizes t ! 0. crow_indices t ! i \<le> crow_indices t ! Suc i"
    and last: "crow_indices t ! (sizes t ! 0) = nnz t"
    by (simp_all add: valid_csr_def)
  from chain_mono[OF ch, of "Suc i" "sizes t ! 0"] assms(2) last
  have "crow_indices t ! Suc i \<le> nnz t" by simp
  with b show c: "p < nnz t" by simp
  with assms(1) show "col_indices t ! p < sizes t ! 1" by (simp add: valid_csr_def)
qed

lemma to_dense_at_stored:
  fixes t :: "'a::monoid_add tensor"
  assumes "valid_csr t" "i < sizes t ! 0" "p \<in> set (csr_row t i)"
  shows "dense_at (to_dense t) i (col_indices t ! p) = vals t ! p"
proof -
  let ?n = "sizes t ! 1" and ?j = "col_indices t ! p"
  note b = valid_csr_row_bounds[OF assms]
  have idx: "i * ?n + ?j < (sizes t ! 0) * ?n"
    using index_bound[OF assms(2) b(4)] .
  from assms(1,2) have d: "distinct (map (\<lambda>p. col_indices t ! p) (csr_row t i))"
    by (simp add: valid_csr_def)
  have "dense_at (to_dense t) i ?j =
      sum_list (map (\<lambda>p. vals t ! p) (filter (\<lambda>q. col_indices t ! q = ?j) (csr_row t i)))"
    using idx div_mod_index[OF b(4), of i] by (simp add: dense_at_def to_dense_def)
  also have "\<dots> = vals t ! p"
    using filter_unique[OF d assms(3)] by simp
  finally show ?thesis .
qed

lemma addmm_at:
  fixes input :: "'a::{monoid_add,times} tensor"
  assumes "i < sizes mat1 ! 0" "j < sizes mat2 ! 1"
  shows "dense_at (addmm input mat1 mat2 beta alpha) i j =
           beta * dense_at input i j + alpha * matmul_at mat1 mat2 i j"
  unfolding dense_at_def[of "addmm input mat1 mat2 beta alpha"]
  using index_bound[OF assms] div_mod_index[OF assms(2), of i]
  by (simp add: addmm_def)

lemma sparse_mask_vals_at:
  assumes "valid_csr s" "i < sizes s ! 0" "p \<in> set (csr_row s i)"
  shows "vals (sparse_mask d s) ! p = dense_at d i (col_indices s ! p)"
proof -
  from assms(1) have z: "crow_indices s ! 0 = 0"
    and ch: "\<forall>i<sizes s ! 0. crow_indices s ! i \<le> crow_indices s ! Suc i"
    by (simp_all add: valid_csr_def)
  note b = valid_csr_row_bounds[OF assms]
  from concat_rows[OF z ch, of "\<lambda>i p. dense_at d i (col_indices s ! p)"] assms(2) b(1,2)
  show ?thesis by (simp add: sparse_mask_def csr_row_def)
qed

text \<open>
  C3. When the call passes its checks and \<open>self\<close> is a well-formed CSR matrix, the call
  returns, and the stored entries of the result are the stored entries of \<open>self\<close>, at the
  same coordinates and in the same order, each value \<open>v\<close> at \<open>(i, j)\<close> replaced by
  \<open>\<alpha>\<cdot>(mat1 @ mat2)[i, j] + \<beta>\<cdot>v\<close>: there is no entry at any other coordinate.
\<close>

theorem sampled_addmm_values:
  fixes env :: "'a::semiring_0 backend"
  assumes checks: "sampled_addmm_checks (debug_build env) (heap st self) (heap st mat1)
                     (heap st mat2) (heap st result) = None"
    and valid: "valid_csr (heap st self)"
  shows "fst (sparse_sampled_addmm_out_sparse_csr_cpu env self mat1 mat2 beta alpha result st)
           = Inr result
     \<and> csr_entries
         (heap (snd (sparse_sampled_addmm_out_sparse_csr_cpu env self mat1 mat2 beta alpha result st))
            result)
       = map (\<lambda>((i, j), v).
                ((i, j), alpha * matmul_at (heap st mat1) (heap st mat2) i j + beta * v))
           (csr_entries (heap st self))"
proof -
  let ?S = "heap st self" and ?M1 = "heap st mat1" and ?M2 = "heap st mat2"
  let ?D = "addmm (to_dense ?S) ?M1 ?M2 beta alpha"
  let ?R = "heap (snd (sparse_sampled_addmm_out_sparse_csr_cpu env self mat1 mat2 beta alpha result st)) result"
  note c = sampled_addmm_checks_None[OF checks]
  note r = sampled_addmm_success[OF checks, of beta alpha]
  have sz: "sizes ?R = sizes ?S" and cr: "crow_indices ?R = crow_indices ?S"
    and co: "col_indices ?R = col_indices ?S" and va: "vals ?R = vals (sparse_mask ?D ?S)"
    unfolding r(2) by (simp_all add: resize_as_sparse_csr_def)
  have row: "csr_row ?R i = csr_row ?S i" for i
    by (simp add: csr_row_def cr)
  have val: "vals ?R ! p = alpha * matmul_at ?M1 ?M2 i (col_indices ?S ! p) + beta * vals ?S ! p"
    if "i < sizes ?S ! 0" "p \<in> set (csr_row ?S i)" for i p
  proof -
    note b = valid_csr_row_bounds[OF valid that]
    have "vals ?R ! p = dense_at ?D i (col_indices ?S ! p)"
      unfolding va using sparse_mask_vals_at[OF valid that] .
    also have "\<dots> = beta * dense_at (to_dense ?S) i (col_indices ?S ! p)
                     + alpha * matmul_at ?M1 ?M2 i (col_indices ?S ! p)"
      using that(1) b(4) c(12,13) by (intro addmm_at) simp_all
    also have "\<dots> = alpha * matmul_at ?M1 ?M2 i (col_indices ?S ! p) + beta * vals ?S ! p"
      using to_dense_at_stored[OF valid that] by (simp add: add.commute)
    finally show ?thesis .
  qed
  have "csr_entries ?R =
      concat (map (\<lambda>i. map (\<lambda>p. ((i, col_indices ?S ! p), vals ?R ! p)) (csr_row ?S i))
                 [0..<sizes ?S ! 0])"
    by (simp add: csr_entries_def sz co row)
  also have "\<dots> =
      concat (map (\<lambda>i. map (\<lambda>p. ((i, col_indices ?S ! p),
                  alpha * matmul_at ?M1 ?M2 i (col_indices ?S ! p) + beta * vals ?S ! p))
                (csr_row ?S i)) [0..<sizes ?S ! 0])"
    by (intro arg_cong[where f = concat] map_cong refl) (simp add: val)
  also have "\<dots> = map (\<lambda>((i, j), v). ((i, j), alpha * matmul_at ?M1 ?M2 i j + beta * v))
                     (csr_entries ?S)"
    by (simp add: csr_entries_def map_concat o_def)
  finally show ?thesis using r(1) by simp
qed

theorem sampled_addmm_values_witness:
  "sampled_addmm_checks (debug_build (ex_backend True)) (heap ex_sampled 0) (heap ex_sampled 1)
     (heap ex_sampled 2) (heap ex_sampled 3) = None
   \<and> valid_csr (heap ex_sampled 0)
   \<and> csr_entries (heap (snd (sparse_sampled_addmm_out_sparse_csr_cpu (ex_backend True)
        0 1 2 1 1 3 ex_sampled)) 3) = [((0, 0), 4), ((1, 1), 4)]"
proof -
  have c: "sampled_addmm_checks (debug_build (ex_backend True)) (heap ex_sampled 0)
     (heap ex_sampled 1) (heap ex_sampled 2) (heap ex_sampled 3) = None"
    by code_simp
  have v: "valid_csr (heap ex_sampled 0)"
    by code_simp
  have e: "map (\<lambda>((i, j), v). ((i, j), 1 * matmul_at (heap ex_sampled 1) (heap ex_sampled 2) i j + 1 * v))
           (csr_entries (heap ex_sampled 0)) = [((0, 0), 4), ((1, 1), 4)]"
    by code_simp
  show ?thesis
    using sampled_addmm_values[OF c v, where beta = 1 and alpha = 1] c v e by simp
qed

text \<open>
  C4. When the call passes its checks, the result has the row pointers, the column
  indices and the shape of \<open>self\<close>, whatever \<open>mat1\<close> and \<open>mat2\<close> hold; and an output buffer
  that is not \<open>self\<close> has them already after the preparation of lines 150 to 152, with
  a fresh values buffer, before the values are written.
\<close>

theorem sampled_addmm_pattern:
  fixes env :: "'a::{monoid_add,times} backend"
  assumes checks: "sampled_addmm_checks (debug_build env) (heap st self) (heap st mat1)
                     (heap st mat2) (heap st result) = None"
  shows "fst (sparse_sampled_addmm_out_sparse_csr_cpu env self mat1 mat2 beta alpha result st)
           = Inr result
     \<and> (let r = heap (snd (sparse_sampled_addmm_out_sparse_csr_cpu env self mat1 mat2 beta alpha
                   result st)) result
        in crow_indices r = crow_indices (heap st self)
           \<and> col_indices r = col_indices (heap st self)
           \<and> sizes r = sizes (heap st self))
     \<and> (result \<noteq> self \<longrightarrow>
          (let p = heap (sampled_addmm_prepare_output env self result st) result
           in crow_indices p = crow_indices (heap st self)
              \<and> col_indices p = col_indices (heap st self)
              \<and> sizes p = sizes (heap st self)
              \<and> vals p = map (uninitialized env) [0..<nnz (heap st self)]))"
  using sampled_addmm_success[OF checks, of beta alpha]
  by (simp add: Let_def sampled_addmm_prepare_output_def resize_as_sparse_csr_def)

theorem sampled_addmm_pattern_witness:
  "sampled_addmm_checks (debug_build (ex_backend False)) (heap ex_sampled 0) (heap ex_sampled 1)
     (heap ex_sampled 2) (heap ex_sampled 3) = None
   \<and> (3::nat) \<noteq> 0
   \<and> crow_indices (heap (snd (sparse_sampled_addmm_out_sparse_csr_cpu (ex_backend False)
        0 1 2 1 1 3 ex_sampled)) 3) = [0, 1, 2]
   \<and> col_indices (heap (snd (sparse_sampled_addmm_out_sparse_csr_cpu (ex_backend False)
        0 1 2 1 1 3 ex_sampled)) 3) = [0, 1]
   \<and> crow_indices (heap (sampled_addmm_prepare_output (ex_backend False) 0 3 ex_sampled) 3)
        = [0, 1, 2]"
proof -
  have c: "sampled_addmm_checks (debug_build (ex_backend False)) (heap ex_sampled 0)
     (heap ex_sampled 1) (heap ex_sampled 2) (heap ex_sampled 3) = None"
    by code_simp
  have s: "crow_indices (heap ex_sampled 0) = [0, 1, 2]" "col_indices (heap ex_sampled 0) = [0, 1]"
    by (simp_all add: ex_sampled_def ex_csr_def)
  show ?thesis
    using sampled_addmm_pattern[OF c, where beta = 1 and alpha = 1] c s by (simp add: Let_def)
qed

lemma sampled_addmm_checks_reject:
  assumes "dbg \<longrightarrow> is_sparse_csr s"
    and "scalar_type m1 \<noteq> scalar_type m2 \<or> scalar_type m1 \<noteq> scalar_type s
       \<or> scalar_type r \<noteq> scalar_type s
       \<or> layout m1 \<noteq> kStrided \<or> layout m2 \<noteq> kStrided \<or> layout r \<noteq> kSparseCsr
       \<or> dim m1 \<noteq> 2 \<or> dim m2 \<noteq> 2 \<or> dim r \<noteq> 2
       \<or> sizes m1 ! 1 \<noteq> sizes m2 ! 0
       \<or> (1 \<le> dim s \<and> sizes s ! 0 \<noteq> sizes m1 ! 0)
       \<or> (2 \<le> dim s \<and> sizes s ! 1 \<noteq> sizes m2 ! 1)"
  shows "\<exists>msg \<in> set sampled_addmm_messages.
           sampled_addmm_checks dbg s m1 m2 r = Some (TorchCheck msg)"
proof -
  have "sampled_addmm_checks dbg s m1 m2 r \<noteq> None"
  proof
    assume n: "sampled_addmm_checks dbg s m1 m2 r = None"
    note c = sampled_addmm_checks_None[OF n]
    from assms(2) c show False by auto
  qed
  then obtain e where e: "sampled_addmm_checks dbg s m1 m2 r = Some e" by auto
  have cases: "e \<in> TorchCheck ` set sampled_addmm_messages \<or> e = OutOfBoundsRead
      \<or> e = InternalAssert ''self.is_sparse_csr()''"
    using e by (simp add: sampled_addmm_checks_def sampled_addmm_messages_def split: if_splits)
  have no_read: "e \<noteq> OutOfBoundsRead"
    using e assms(2) by (auto simp: sampled_addmm_checks_def split: if_splits)
  have no_assert: "e \<noteq> InternalAssert ''self.is_sparse_csr()''"
    using e assms(1) by (auto simp: sampled_addmm_checks_def split: if_splits)
  from cases no_read no_assert e show ?thesis by auto
qed

lemma sampled_addmm_failure:
  fixes env :: "'a::{monoid_add,times} backend"
  assumes "fst (sparse_sampled_addmm_out_sparse_csr_cpu env self mat1 mat2 beta alpha result st)
             = Inl e"
  shows "sparse_sampled_addmm_out_sparse_csr_cpu env self mat1 mat2 beta alpha result st = (Inl e, st)
    \<and> sampled_addmm_checks (debug_build env) (heap st self) (heap st mat1) (heap st mat2)
         (heap st result) = Some e"
  using assms
  by (simp add: sparse_sampled_addmm_out_sparse_csr_cpu_def Let_def split: option.splits)

text \<open>
  C6. When the debug-only assertion on \<open>self\<close> does not fail, every call with a dtype
  mismatch between \<open>mat1\<close> and \<open>mat2\<close>, \<open>mat1\<close> and \<open>self\<close> or \<open>result\<close> and \<open>self\<close>, with a
  \<open>mat1\<close> or \<open>mat2\<close> that is not strided, a \<open>result\<close> that is not CSR, a \<open>mat1\<close>, \<open>mat2\<close>
  or \<open>result\<close> that has not two dimensions, a \<open>mat1\<close> with another number of columns than
  \<open>mat2\<close> has rows, or a \<open>self\<close> whose rows or columns differ from those of the product,
  fails with one of the messages of the checks, in every build, and leaves the store as it
  was.
\<close>

theorem sampled_addmm_rejects:
  fixes env :: "'a::{monoid_add,times} backend"
  assumes contract: "debug_build env \<longrightarrow> is_sparse_csr (heap st self)"
    and bad: "scalar_type (heap st mat1) \<noteq> scalar_type (heap st mat2)
       \<or> scalar_type (heap st mat1) \<noteq> scalar_type (heap st self)
       \<or> scalar_type (heap st result) \<noteq> scalar_type (heap st self)
       \<or> layout (heap st mat1) \<noteq> kStrided \<or> layout (heap st mat2) \<noteq> kStrided
       \<or> layout (heap st result) \<noteq> kSparseCsr
       \<or> dim (heap st mat1) \<noteq> 2 \<or> dim (heap st mat2) \<noteq> 2 \<or> dim (heap st result) \<noteq> 2
       \<or> sizes (heap st mat1) ! 1 \<noteq> sizes (heap st mat2) ! 0
       \<or> (1 \<le> dim (heap st self) \<and> sizes (heap st self) ! 0 \<noteq> sizes (heap st mat1) ! 0)
       \<or> (2 \<le> dim (heap st self) \<and> sizes (heap st self) ! 1 \<noteq> sizes (heap st mat2) ! 1)"
  shows "\<exists>msg \<in> set sampled_addmm_messages.
           sparse_sampled_addmm_out_sparse_csr_cpu env self mat1 mat2 beta alpha result st
             = (Inl (TorchCheck msg), st)"
proof -
  from sampled_addmm_checks_reject[OF contract bad] obtain msg
    where "msg \<in> set sampled_addmm_messages"
      and "sampled_addmm_checks (debug_build env) (heap st self) (heap st mat1) (heap st mat2)
             (heap st result) = Some (TorchCheck msg)"
    by blast
  then show ?thesis
    by (auto simp: sparse_sampled_addmm_out_sparse_csr_cpu_def)
qed

theorem sampled_addmm_rejects_witness:
  "is_sparse_csr (heap ex_sampled_dtype 0)
   \<and> scalar_type (heap ex_sampled_dtype 1) \<noteq> scalar_type (heap ex_sampled_dtype 2)
   \<and> sizes (heap ex_sampled_shape 1) ! 1 \<noteq> sizes (heap ex_sampled_shape 2) ! 0
   \<and> sparse_sampled_addmm_out_sparse_csr_cpu (ex_backend True) 0 1 2 1 1 3 ex_sampled_dtype
       = (Inl (TorchCheck ''sampled_addmm: Expected mat1 and mat2 to have the same dtype, but got ''),
          ex_sampled_dtype)
   \<and> sparse_sampled_addmm_out_sparse_csr_cpu (ex_backend True) 0 1 2 1 1 3 ex_sampled_shape
       = (Inl (TorchCheck ''sampled_addmm: mat1 and mat2 shapes cannot be multiplied (''),
          ex_sampled_shape)"
proof -
  have c: "is_sparse_csr (heap ex_sampled_dtype 0)" "is_sparse_csr (heap ex_sampled_shape 0)"
    by (simp_all add: ex_sampled_dtype_def ex_sampled_shape_def ex_sampled_def ex_csr_def
          is_sparse_csr_def)
  have d: "scalar_type (heap ex_sampled_dtype 1) \<noteq> scalar_type (heap ex_sampled_dtype 2)"
    by (simp add: ex_sampled_dtype_def ex_sampled_def ex_dense_def)
  have s: "sizes (heap ex_sampled_shape 1) ! 1 \<noteq> sizes (heap ex_sampled_shape 2) ! 0"
    by (simp add: ex_sampled_shape_def ex_sampled_def ex_dense_def)
  have f: "fst (sparse_sampled_addmm_out_sparse_csr_cpu (ex_backend True) 0 1 2 1 1 3
                 ex_sampled_dtype)
       = Inl (TorchCheck ''sampled_addmm: Expected mat1 and mat2 to have the same dtype, but got '')"
    "fst (sparse_sampled_addmm_out_sparse_csr_cpu (ex_backend True) 0 1 2 1 1 3 ex_sampled_shape)
       = Inl (TorchCheck ''sampled_addmm: mat1 and mat2 shapes cannot be multiplied ('')"
    by code_simp+
  from sampled_addmm_rejects[of "ex_backend True" ex_sampled_dtype 0 1 2 3 1 1] c(1) d
  obtain m1 where m1: "sparse_sampled_addmm_out_sparse_csr_cpu (ex_backend True) 0 1 2 1 1 3
      ex_sampled_dtype = (Inl (TorchCheck m1), ex_sampled_dtype)"
    by blast
  from sampled_addmm_rejects[of "ex_backend True" ex_sampled_shape 0 1 2 3 1 1] c(2) s
  obtain m2 where m2: "sparse_sampled_addmm_out_sparse_csr_cpu (ex_backend True) 0 1 2 1 1 3
      ex_sampled_shape = (Inl (TorchCheck m2), ex_sampled_shape)"
    by blast
  from m1 f(1) have "m1 = ''sampled_addmm: Expected mat1 and mat2 to have the same dtype, but got ''"
    by simp
  moreover from m2 f(2) have "m2 = ''sampled_addmm: mat1 and mat2 shapes cannot be multiplied (''"
    by simp
  ultimately show ?thesis using c(1) d s m1 m2 by simp
qed

text \<open>
  C10. When \<open>self\<close> has not two dimensions, the call never fails with a message that
  \<open>self\<close> is expected to be a matrix: a failed check has one of the twelve messages of
  the checks, none of which is that one. In a build without debug assertions nothing is
  asserted of \<open>self\<close>. Where all would pass for a \<open>self\<close> of the shape of the product, a
  \<open>self\<close> of no dimension, or of one dimension of the right size, leads to a read past the
  end of its sizes, and a \<open>self\<close> of more dimensions that start with the shape of the
  product passes every check.
\<close>

theorem sampled_addmm_self_rank_unchecked:
  fixes env :: "'a::{monoid_add,times} backend"
  assumes rank: "dim (heap st self) \<noteq> 2"
  shows "fst (sparse_sampled_addmm_out_sparse_csr_cpu env self mat1 mat2 beta alpha result st)
           \<noteq> Inl (TorchCheck (expected_matrix ''self''))
     \<and> (fst (sparse_sampled_addmm_out_sparse_csr_cpu env self mat1 mat2 beta alpha result st)
           = Inl (TorchCheck msg) \<longrightarrow> msg \<in> set sampled_addmm_messages)
     \<and> (\<not> debug_build env \<longrightarrow>
          fst (sparse_sampled_addmm_out_sparse_csr_cpu env self mat1 mat2 beta alpha result st)
            \<noteq> Inl (InternalAssert msg))
     \<and> (sampled_addmm_checks (debug_build env)
            ((heap st self)\<lparr>sizes := [sizes (heap st mat1) ! 0, sizes (heap st mat2) ! 1]\<rparr>)
            (heap st mat1) (heap st mat2) (heap st result) = None \<longrightarrow>
          (dim (heap st self) = 0 \<or> sizes (heap st self) = [sizes (heap st mat1) ! 0] \<longrightarrow>
             sparse_sampled_addmm_out_sparse_csr_cpu env self mat1 mat2 beta alpha result st
               = (Inl OutOfBoundsRead, st))
          \<and> (2 < dim (heap st self) \<and> sizes (heap st self) ! 0 = sizes (heap st mat1) ! 0
               \<and> sizes (heap st self) ! 1 = sizes (heap st mat2) ! 1 \<longrightarrow>
             fst (sparse_sampled_addmm_out_sparse_csr_cpu env self mat1 mat2 beta alpha result st)
               = Inr result))"
proof -
  let ?out = "sparse_sampled_addmm_out_sparse_csr_cpu env self mat1 mat2 beta alpha result st"
  let ?chk = "sampled_addmm_checks (debug_build env) (heap st self) (heap st mat1)
                (heap st mat2) (heap st result)"
  have msgs: "m \<in> set sampled_addmm_messages" if "fst ?out = Inl (TorchCheck m)" for m
  proof -
    from sampled_addmm_failure[OF that] have "?chk = Some (TorchCheck m)" by simp
    then show ?thesis
      by (simp add: sampled_addmm_checks_def sampled_addmm_messages_def split: if_splits)
  qed
  have notself: "expected_matrix ''self'' \<notin> set sampled_addmm_messages"
    by (simp add: sampled_addmm_messages_def expected_matrix_def)
  have noassert: "fst ?out \<noteq> Inl (InternalAssert msg)" if "\<not> debug_build env"
  proof
    assume "fst ?out = Inl (InternalAssert msg)"
    from sampled_addmm_failure[OF this] have "?chk = Some (InternalAssert msg)" by simp
    with that show False
      by (simp add: sampled_addmm_checks_def split: if_splits)
  qed
  have reads: "(dim (heap st self) = 0 \<or> sizes (heap st self) = [sizes (heap st mat1) ! 0] \<longrightarrow>
             ?out = (Inl OutOfBoundsRead, st))
          \<and> (2 < dim (heap st self) \<and> sizes (heap st self) ! 0 = sizes (heap st mat1) ! 0
               \<and> sizes (heap st self) ! 1 = sizes (heap st mat2) ! 1 \<longrightarrow>
             fst ?out = Inr result)"
    if ok: "sampled_addmm_checks (debug_build env)
            ((heap st self)\<lparr>sizes := [sizes (heap st mat1) ! 0, sizes (heap st mat2) ! 1]\<rparr>)
            (heap st mat1) (heap st mat2) (heap st result) = None"
  proof -
    note c = sampled_addmm_checks_None[OF ok]
    have a: "?chk = Some OutOfBoundsRead"
      if "dim (heap st self) = 0 \<or> sizes (heap st self) = [sizes (heap st mat1) ! 0]"
      using that c by (auto simp: sampled_addmm_checks_def is_sparse_csr_def dim_def)
    have b: "?chk = None"
      if "2 < dim (heap st self)" "sizes (heap st self) ! 0 = sizes (heap st mat1) ! 0"
         "sizes (heap st self) ! 1 = sizes (heap st mat2) ! 1"
      using that c by (auto simp: sampled_addmm_checks_def is_sparse_csr_def dim_def)
    show ?thesis
      using a b by (auto simp: sparse_sampled_addmm_out_sparse_csr_cpu_def Let_def)
  qed
  show ?thesis using msgs notself noassert reads by blast
qed

theorem sampled_addmm_self_rank_unchecked_witness:
  "dim (heap ex_sampled_rank1 0) \<noteq> 2
   \<and> \<not> debug_build (ex_backend False)
   \<and> sparse_sampled_addmm_out_sparse_csr_cpu (ex_backend False) 0 1 2 1 1 3 ex_sampled_rank1
       = (Inl OutOfBoundsRead, ex_sampled_rank1)
   \<and> fst (sparse_sampled_addmm_out_sparse_csr_cpu (ex_backend False) 0 1 2 1 1 3 ex_sampled_rank1)
       \<noteq> Inl (TorchCheck (expected_matrix ''self''))"
proof -
  have r: "dim (heap ex_sampled_rank1 0) \<noteq> 2"
    by (simp add: ex_sampled_rank1_def ex_dense_def dim_def)
  have b: "\<not> debug_build (ex_backend False)"
    by (simp add: ex_backend_def)
  have c: "sampled_addmm_checks (debug_build (ex_backend False))
            ((heap ex_sampled_rank1 0)\<lparr>sizes := [sizes (heap ex_sampled_rank1 1) ! 0,
               sizes (heap ex_sampled_rank1 2) ! 1]\<rparr>)
            (heap ex_sampled_rank1 1) (heap ex_sampled_rank1 2) (heap ex_sampled_rank1 3) = None"
    by code_simp
  have s: "sizes (heap ex_sampled_rank1 0) = [sizes (heap ex_sampled_rank1 1) ! 0]"
    by (simp add: ex_sampled_rank1_def ex_sampled_def ex_dense_def)
  show ?thesis
    using sampled_addmm_self_rank_unchecked[OF r, of "ex_backend False" 1 2 1 1 3] r b c s
    by simp
qed

section \<open>Failed checks and the store\<close>

text \<open>
  C7. A call of addmv or of sampled_addmm that fails one of the checks leaves the store as
  it was: no buffer is resized, copied to or written.
\<close>

theorem validation_failure_leaves_output:
  fixes env :: "'a::{monoid_add,times} backend"
  shows "(fst (addmv_out_sparse_csr env self mat vec beta alpha result st) = Inl (TorchCheck msg)
            \<longrightarrow> snd (addmv_out_sparse_csr env self mat vec beta alpha result st) = st)
     \<and> (fst (sparse_sampled_addmm_out_sparse_csr_cpu env self mat1 mat2 beta alpha result st)
            = Inl (TorchCheck msg)
            \<longrightarrow> snd (sparse_sampled_addmm_out_sparse_csr_cpu env self mat1 mat2 beta alpha result st)
                  = st)"
proof -
  have "snd (addmv_out_sparse_csr env self mat vec beta alpha result st) = st"
    if "fst (addmv_out_sparse_csr env self mat vec beta alpha result st) = Inl (TorchCheck msg)"
    using that
    by (auto simp: addmv_out_sparse_csr_def addmv_dispatch_def Let_def
          split: if_splits sum.splits option.splits)
  moreover have "snd (sparse_sampled_addmm_out_sparse_csr_cpu env self mat1 mat2 beta alpha result st)
                  = st"
    if "fst (sparse_sampled_addmm_out_sparse_csr_cpu env self mat1 mat2 beta alpha result st)
            = Inl (TorchCheck msg)"
    using sampled_addmm_failure[OF that] by simp
  ultimately show ?thesis by blast
qed

theorem validation_failure_leaves_output_witness:
  "fst (addmv_out_sparse_csr (ex_backend False) 0 1 2 2 5 3 ex_addmv_batched)
     = Inl (TorchCheck ''addmv: Expected mat to be 2-D'')
   \<and> snd (addmv_out_sparse_csr (ex_backend False) 0 1 2 2 5 3 ex_addmv_batched) = ex_addmv_batched
   \<and> fst (sparse_sampled_addmm_out_sparse_csr_cpu (ex_backend False) 0 1 2 1 1 3 ex_sampled_dtype)
     = Inl (TorchCheck ''sampled_addmm: Expected mat1 and mat2 to have the same dtype, but got '')
   \<and> snd (sparse_sampled_addmm_out_sparse_csr_cpu (ex_backend False) 0 1 2 1 1 3 ex_sampled_dtype)
     = ex_sampled_dtype"
proof -
  have a: "fst (addmv_out_sparse_csr (ex_backend False) 0 1 2 2 5 3 ex_addmv_batched)
     = Inl (TorchCheck ''addmv: Expected mat to be 2-D'')"
    by (simp add: addmv_out_sparse_csr_def ex_backend_def ex_addmv_batched_def ex_csr_def dim_def)
  have b: "fst (sparse_sampled_addmm_out_sparse_csr_cpu (ex_backend False) 0 1 2 1 1 3
                 ex_sampled_dtype)
     = Inl (TorchCheck ''sampled_addmm: Expected mat1 and mat2 to have the same dtype, but got '')"
    by code_simp
  show ?thesis
    using validation_failure_leaves_output[of "ex_backend False" 0 1 2 2 5 3 ex_addmv_batched
        "''addmv: Expected mat to be 2-D''"]
      validation_failure_leaves_output[of "ex_backend False" 0 1 2 1 1 3 ex_sampled_dtype
        "''sampled_addmm: Expected mat1 and mat2 to have the same dtype, but got ''" 1 2]
      a b
    by simp
qed

end
